theory Spec2Isabelle
  imports Complex_Main
begin

section \<open>Face-based drowsiness detector: the assessment engine\<close>

text \<open>
  A shallow embedding of the assessment engine of \<^verbatim>\<open>unified_drowsiness_detector.py\<close>:
  the aspect-ratio geometry, the threshold scorer, the per-frame bookkeeping of the camera
  and video loops, the alert cooldown and the session resets.

  The scorer computes in Python floats, which are IEEE binary64 numbers: a float is
  modelled by its value in \<^typ>\<open>real\<close>, and the scorer's sum, its division and its decimal
  literals are rounded to the nearest binary64 number, ties to even. The landmark geometry
  is modelled in exact reals. Python integers are \<^typ>\<open>int\<close>. Status and indicator texts are
  the strings of the source.
\<close>

subsection \<open>Errors\<close>

datatype error = IndexError | ZeroDivisionError | AttributeError | DetectorError

subsection \<open>Double-precision arithmetic\<close>

text \<open>
  Rounding to the nearest integer, a tie going to the even neighbour.
\<close>

definition round_half_even :: "real \<Rightarrow> int" where
  "round_half_even y =
    (let f = \<lfloor>y\<rfloor> in
     if y - of_int f < 1 / 2 then f
     else if y - of_int f > 1 / 2 then f + 1
     else if even f then f else f + 1)"

text \<open>
  The binary exponent of a positive number: \<open>binade x = e\<close> when \<open>2 ^ e \<le> x < 2 ^ (e + 1)\<close>.
\<close>

function binade :: "real \<Rightarrow> int" where
  "binade x =
    (if x \<le> 0 then 0
     else if 2 \<le> x then binade (x / 2) + 1
     else if x < 1 then binade (2 * x) - 1
     else 0)"
  by pat_completeness auto
termination
proof (relation "measure (\<lambda>x. nat \<bar>\<lfloor>log 2 x\<rfloor>\<bar>)")
  show "wf (measure (\<lambda>x. nat \<bar>\<lfloor>log 2 x\<rfloor>\<bar>))" by simp
next
  fix x :: real
  assume "\<not> x \<le> 0" "2 \<le> x"
  then have "log 2 (x / 2) = log 2 x - 1" by (simp add: log_divide)
  moreover have "1 \<le> log 2 x" using \<open>2 \<le> x\<close> by (simp add: le_log_iff)
  then have "1 \<le> \<lfloor>log 2 x\<rfloor>" by linarith
  ultimately show "(x / 2, x) \<in> measure (\<lambda>x. nat \<bar>\<lfloor>log 2 x\<rfloor>\<bar>)" by simp
next
  fix x :: real
  assume "\<not> x \<le> 0" "\<not> 2 \<le> x" "x < 1"
  then have "log 2 (2 * x) = 1 + log 2 x" by (simp add: log_mult)
  moreover have "log 2 x < 0" using \<open>\<not> x \<le> 0\<close> \<open>x < 1\<close> by simp
  then have "\<lfloor>log 2 x\<rfloor> \<le> -1" by linarith
  ultimately show "(2 * x, x) \<in> measure (\<lambda>x. nat \<bar>\<lfloor>log 2 x\<rfloor>\<bar>)" by simp
qed

declare binade.simps [simp del]

definition pow2 :: "int \<Rightarrow> real" where
  "pow2 k = (if 0 \<le> k then 2 ^ nat k else 1 / 2 ^ nat (- k))"

text \<open>
  The binary64 number nearest to a real: 53 significant bits, the exponent not below
  \<open>-1022\<close> (below it the spacing stays \<open>2 ^ -1074\<close>). A result beyond the largest finite
  double, which Python gives as \<^verbatim>\<open>inf\<close>, is kept as the rounded real; it lies above every
  threshold of the scorer, as \<^verbatim>\<open>inf\<close> does.
\<close>

definition to_double :: "real \<Rightarrow> real" where
  "to_double x =
    (if x = 0 then 0
     else
       (let e = max (binade \<bar>x\<bar>) (- 1022);
            q = pow2 (e - 52)
        in of_int (round_half_even (x / q)) * q))"

definition float_add :: "real \<Rightarrow> real \<Rightarrow> real" where
  "float_add a b = to_double (a + b)"

definition float_div :: "real \<Rightarrow> real \<Rightarrow> real" where
  "float_div a b = to_double (a / b)"

subsection \<open>The scorer (\<^verbatim>\<open>assess_drowsiness\<close>)\<close>

text \<open>
  The method reads only its three arguments. The two \<^verbatim>\<open>if/elif\<close> chains update the local
  variables \<^verbatim>\<open>score\<close> and \<^verbatim>\<open>indicators\<close>; each chain is one step of the \<open>let\<close> below, in the
  order of the source. The average is the float sum divided by the float \<^verbatim>\<open>2.0\<close>, and each
  threshold is the double its decimal literal denotes.
\<close>

definition assess_drowsiness :: "real \<Rightarrow> real \<Rightarrow> real \<Rightarrow> int \<times> string \<times> string list" where
  "assess_drowsiness left_ear right_ear mar =
    (let indicators = [];
         score = 0;
         avg_ear = float_div (float_add left_ear right_ear) 2.0;
         (score, indicators) =
           (if avg_ear < to_double 0.20 then
              (score + 70, indicators @ [''Eyes fully closed (asleep)''])
            else if avg_ear < to_double 0.293 then
              (score + 60, indicators @ [''Eyes nearly closed (very drowsy)''])
            else if avg_ear < to_double 0.343 then
              (score + 40, indicators @ [''Eyes partially closed (drowsy)''])
            else if avg_ear < to_double 0.393 then
              (score + 25, indicators @ [''Eyes slightly closing''])
            else if avg_ear < to_double 0.443 then
              (score + 10, indicators @ [''Eyes narrowing slightly''])
            else (score, indicators));
         (score, indicators) =
           (if mar > to_double 0.267 then (score + 35, indicators @ [''Wide yawning detected''])
            else if mar > to_double 0.167 then (score + 30, indicators @ [''Yawning detected''])
            else if mar > to_double 0.117 then
              (score + 15, indicators @ [''Mouth opening (possible yawn)''])
            else (score, indicators));
         score = min score 100;
         status =
           (if score \<ge> 65 then ''Very Drowsy / Asleep''
            else if score \<ge> 45 then ''Drowsy''
            else if score \<ge> 25 then ''Slightly Drowsy''
            else if score \<ge> 10 then ''Mildly Tired''
            else ''Alert'')
     in (score, status, indicators))"

text \<open>The indicator texts of the eye chain and of the mouth chain.\<close>

definition eye_indicators :: "string list" where
  "eye_indicators =
    [''Eyes fully closed (asleep)'', ''Eyes nearly closed (very drowsy)'',
     ''Eyes partially closed (drowsy)'', ''Eyes slightly closing'', ''Eyes narrowing slightly'']"

definition mouth_indicators :: "string list" where
  "mouth_indicators =
    [''Wide yawning detected'', ''Yawning detected'', ''Mouth opening (possible yawn)'']"

subsection \<open>The scoring tables as the specification words them\<close>

text \<open>
  The bands of the specification, written as intervals: eye points by average EAR, mouth
  points by MAR, and the status by total score. A bound of a band is the double that the
  decimal of the table denotes.
\<close>

definition eye_points_spec :: "real \<Rightarrow> int" where
  "eye_points_spec avg_ear =
    (if avg_ear < to_double 0.20 then 70
     else if to_double 0.20 \<le> avg_ear \<and> avg_ear < to_double 0.293 then 60
     else if to_double 0.293 \<le> avg_ear \<and> avg_ear < to_double 0.343 then 40
     else if to_double 0.343 \<le> avg_ear \<and> avg_ear < to_double 0.393 then 25
     else if to_double 0.393 \<le> avg_ear \<and> avg_ear < to_double 0.443 then 10
     else 0)"

definition mouth_points_spec :: "real \<Rightarrow> int" where
  "mouth_points_spec mar =
    (if mar > to_double 0.267 then 35
     else if to_double 0.167 < mar \<and> mar \<le> to_double 0.267 then 30
     else if to_double 0.117 < mar \<and> mar \<le> to_double 0.167 then 15
     else 0)"

definition status_spec :: "int \<Rightarrow> string" where
  "status_spec score =
    (if score \<ge> 65 then ''Very Drowsy / Asleep''
     else if score \<ge> 45 then ''Drowsy''
     else if score \<ge> 25 then ''Slightly Drowsy''
     else if score \<ge> 10 then ''Mildly Tired''
     else ''Alert'')"

subsection \<open>Feature extraction\<close>

text \<open>
  A landmark has normalised coordinates; only the first two are read by the distance.
  Indexing a Python list out of range raises \<^verbatim>\<open>IndexError\<close>; the index lists of the
  source hold non-negative constants, so indices are natural numbers.
\<close>

record point =
  pt_x :: real
  pt_y :: real
  pt_z :: real

definition getitem :: "'a list \<Rightarrow> nat \<Rightarrow> error + 'a" where
  "getitem xs i = (if i < length xs then Inr (xs ! i) else Inl IndexError)"

definition bind_err :: "error + 'a \<Rightarrow> ('a \<Rightarrow> error + 'b) \<Rightarrow> error + 'b" where
  "bind_err m f = (case m of Inl e \<Rightarrow> Inl e | Inr v \<Rightarrow> f v)"

definition calculate_distance :: "point \<Rightarrow> point \<Rightarrow> real" where
  "calculate_distance point1 point2 =
    sqrt ((pt_x point1 - pt_x point2)\<^sup>2 + (pt_y point1 - pt_y point2)\<^sup>2)"

text \<open>\<^verbatim>\<open>landmarks[idx[k]]\<close>: the inner index is read first.\<close>

definition landmark_at :: "nat list \<Rightarrow> point list \<Rightarrow> nat \<Rightarrow> error + point" where
  "landmark_at idx landmarks k = bind_err (getitem idx k) (getitem landmarks)"

definition calculate_eye_aspect_ratio :: "nat list \<Rightarrow> point list \<Rightarrow> error + real" where
  "calculate_eye_aspect_ratio eye_landmarks landmarks =
    bind_err (landmark_at eye_landmarks landmarks 0) (\<lambda>p1.
    bind_err (landmark_at eye_landmarks landmarks 1) (\<lambda>p2.
    bind_err (landmark_at eye_landmarks landmarks 2) (\<lambda>p3.
    bind_err (landmark_at eye_landmarks landmarks 3) (\<lambda>p4.
    bind_err (landmark_at eye_landmarks landmarks 4) (\<lambda>p5.
    bind_err (landmark_at eye_landmarks landmarks 5) (\<lambda>p6.
      (let vertical1 = calculate_distance p2 p6;
           vertical2 = calculate_distance p3 p5;
           horizontal = calculate_distance p1 p4
       in if horizontal = 0 then Inr 0
          else Inr ((vertical1 + vertical2) / (2.0 * horizontal)))))))))"

definition calculate_mouth_aspect_ratio :: "nat list \<Rightarrow> point list \<Rightarrow> error + real" where
  "calculate_mouth_aspect_ratio mouth_landmarks landmarks =
    bind_err (landmark_at mouth_landmarks landmarks 0) (\<lambda>p1.
    bind_err (landmark_at mouth_landmarks landmarks 1) (\<lambda>p2.
    bind_err (landmark_at mouth_landmarks landmarks 2) (\<lambda>p5.
    bind_err (landmark_at mouth_landmarks landmarks 3) (\<lambda>p8.
      (let vertical = calculate_distance p2 p8;
           horizontal = calculate_distance p1 p5
       in if horizontal = 0 then Inr 0
          else Inr (vertical / horizontal))))))"

subsection \<open>Frame analysis (\<^verbatim>\<open>analyze_frame\<close>)\<close>

text \<open>
  The value returned by \<^verbatim>\<open>analyze_frame\<close> is the tuple
  \<^verbatim>\<open>(score, status, indicators, left_ear, right_ear, mar)\<close>. The landmark detector is
  external: its outcome for a frame is the input here, either an exception raised before
  the landmarks are available or the list \<^verbatim>\<open>face_landmarks\<close> (empty when no face is seen).
  Every exception inside the \<^verbatim>\<open>try\<close> block yields the \<^verbatim>\<open>"Error"\<close> tuple. Drawing is not
  modelled.
\<close>

record frame_result =
  fr_score :: int
  fr_status :: string
  fr_indicators :: "string list"
  fr_left_ear :: real
  fr_right_ear :: real
  fr_mar :: real

type_synonym detection = "error + point list list"

definition left_eye_landmarks :: "nat list" where
  "left_eye_landmarks = [33, 160, 159, 133, 145, 144]"

definition right_eye_landmarks :: "nat list" where
  "right_eye_landmarks = [362, 385, 386, 263, 374, 373]"

definition mouth_landmarks :: "nat list" where
  "mouth_landmarks = [61, 13, 291, 14]"

definition no_face_result :: frame_result where
  "no_face_result =
    \<lparr>fr_score = 0, fr_status = ''No Face'', fr_indicators = [],
     fr_left_ear = 0, fr_right_ear = 0, fr_mar = 0\<rparr>"

definition error_result :: frame_result where
  "error_result =
    \<lparr>fr_score = 0, fr_status = ''Error'', fr_indicators = [],
     fr_left_ear = 0, fr_right_ear = 0, fr_mar = 0\<rparr>"

definition analyze_frame :: "detection \<Rightarrow> frame_result" where
  "analyze_frame detection_result =
    (case detection_result of
       Inl e \<Rightarrow> error_result
     | Inr face_landmarks \<Rightarrow>
         (if face_landmarks \<noteq> [] then
            (let landmarks = face_landmarks ! 0 in
             case bind_err (calculate_eye_aspect_ratio left_eye_landmarks landmarks) (\<lambda>left_ear.
                  bind_err (calculate_eye_aspect_ratio right_eye_landmarks landmarks) (\<lambda>right_ear.
                  bind_err (calculate_mouth_aspect_ratio mouth_landmarks landmarks) (\<lambda>mar.
                    Inr (left_ear, right_ear, mar)))) of
               Inl e \<Rightarrow> error_result
             | Inr (left_ear, right_ear, mar) \<Rightarrow>
                 (let (score, status, indicators) = assess_drowsiness left_ear right_ear mar
                  in \<lparr>fr_score = score, fr_status = status, fr_indicators = indicators,
                      fr_left_ear = left_ear, fr_right_ear = right_ear, fr_mar = mar\<rparr>))
          else no_face_result))"

subsection \<open>The detector object and its sessions\<close>

text \<open>
  The fields of \<^verbatim>\<open>self\<close> that the counters, the alert and the resets read or write. A
  \<^verbatim>\<open>cv2.VideoCapture\<close> is external; what the code asks of it is whether it opened, its
  frame count (already truncated by \<^verbatim>\<open>int\<close>) and its frame rate.
\<close>

record capture =
  isOpened :: bool
  frame_count :: int
  cap_fps :: real

record detector =
  current_file :: "string option"
  file_type :: "string option"
  video_capture :: "capture option"
  is_playing :: bool
  total_frames :: int
  current_frame_num :: int
  fps :: real
  camera :: "capture option"
  camera_active :: bool
  alert_threshold :: int
  alert_cooldown :: real
  last_alert_time :: real
  drowsy_frames :: int
  drowsy_detections :: int

text \<open>The values set by \<^verbatim>\<open>__init__\<close>.\<close>

definition init :: detector where
  "init =
    \<lparr>current_file = None, file_type = None, video_capture = None, is_playing = False,
     total_frames = 0, current_frame_num = 0, fps = 30, camera = None,
     camera_active = False, alert_threshold = 30, alert_cooldown = 5, last_alert_time = 0,
     drowsy_frames = 0, drowsy_detections = 0\<rparr>"

definition stop_video :: "detector \<Rightarrow> detector" where
  "stop_video s = (let s = s\<lparr>is_playing := False\<rparr> in
     if video_capture s \<noteq> None then s\<lparr>video_capture := None\<rparr> else s)"

definition load_image :: "detector \<Rightarrow> string \<Rightarrow> bool \<Rightarrow> detector" where
  "load_image s file_path image_read =
    (if \<not> image_read then s
     else s\<lparr>current_file := Some file_path, file_type := Some ''image'',
            total_frames := 1, current_frame_num := 0,
            drowsy_detections := 0, drowsy_frames := 0\<rparr>)"

definition load_video :: "detector \<Rightarrow> string \<Rightarrow> capture \<Rightarrow> detector" where
  "load_video s file_path cap =
    (let s = s\<lparr>video_capture := Some cap\<rparr> in
     if \<not> isOpened cap then s
     else
       (let s = s\<lparr>total_frames := frame_count cap, fps := cap_fps cap\<rparr>;
            s = (if fps s = 0 then s\<lparr>fps := 30\<rparr> else s)
        in s\<lparr>current_file := Some file_path, file_type := Some ''video'',
              current_frame_num := 0,
              drowsy_detections := 0, drowsy_frames := 0\<rparr>))"

definition image_exts :: "string list" where
  "image_exts = [''.jpg'', ''.jpeg'', ''.png'', ''.bmp'', ''.gif'']"

definition video_exts :: "string list" where
  "video_exts = [''.mp4'', ''.avi'', ''.mov'', ''.mkv'', ''.wmv'', ''.flv'']"

text \<open>
  \<^verbatim>\<open>load_file\<close>: \<open>ext\<close> is the lower-cased extension of the path; \<open>image_read\<close> and \<open>cap\<close>
  are what reading the file as an image or opening it as a video would give.
\<close>

definition load_file :: "detector \<Rightarrow> string \<Rightarrow> string \<Rightarrow> bool \<Rightarrow> capture \<Rightarrow> detector" where
  "load_file s file_path ext image_read cap =
    (let s = stop_video s in
     if ext \<in> set image_exts then load_image s file_path image_read
     else if ext \<in> set video_exts then load_video s file_path cap
     else s)"

definition play_video :: "detector \<Rightarrow> detector" where
  "play_video s =
    (if video_capture s = None \<or> file_type s \<noteq> Some ''video'' then s
     else s\<lparr>is_playing := True\<rparr>)"

definition pause_video :: "detector \<Rightarrow> detector" where
  "pause_video s = s\<lparr>is_playing := False\<rparr>"

definition start_camera :: "detector \<Rightarrow> capture \<Rightarrow> detector" where
  "start_camera s cap =
    (let s = stop_video s;
         s = s\<lparr>camera := Some cap\<rparr> in
     if \<not> isOpened cap then s
     else s\<lparr>file_type := Some ''camera'', camera_active := True,
            total_frames := 0, current_frame_num := 0,
            drowsy_detections := 0, drowsy_frames := 0, last_alert_time := 0\<rparr>)"

definition stop_camera :: "detector \<Rightarrow> detector" where
  "stop_camera s = (let s = s\<lparr>camera_active := False\<rparr>;
       s = (if camera s \<noteq> None then s\<lparr>camera := None\<rparr> else s)
     in s\<lparr>file_type := None\<rparr>)"

subsection \<open>The camera loop and its alert\<close>

text \<open>
  What \<^verbatim>\<open>trigger_camera_alert\<close> schedules on the user interface when it fires: the alert
  label, the alarm, the notification, and the clearing of the label after 3000 ms.
\<close>

datatype ui_action = ShowAlertLabel | PlayAlarm | ShowNotification | ClearAlertLabelAfter nat

text \<open>\<open>current_time\<close> is the reading of \<^verbatim>\<open>time.time()\<close>.\<close>

definition trigger_camera_alert :: "detector \<Rightarrow> real \<Rightarrow> detector \<times> ui_action list" where
  "trigger_camera_alert s current_time =
    (if current_time - last_alert_time s > alert_cooldown s then
       (s\<lparr>last_alert_time := current_time\<rparr>,
        [ShowAlertLabel, PlayAlarm, ShowNotification, ClearAlertLabelAfter 3000])
     else (s, []))"

text \<open>
  One iteration of \<^verbatim>\<open>_camera_loop\<close> after a successful read: the frame's detection outcome
  and the clock reading the alert would see.
\<close>

definition camera_frame :: "detector \<Rightarrow> detection \<Rightarrow> real \<Rightarrow> detector \<times> ui_action list" where
  "camera_frame s d current_time =
    (let s = s\<lparr>current_frame_num := current_frame_num s + 1\<rparr>;
         r = analyze_frame d;
         (s, alerts) =
           (if fr_score r \<ge> 65 then
              (let s = s\<lparr>drowsy_frames := drowsy_frames s + 1\<rparr> in
               if drowsy_frames s \<ge> alert_threshold s then trigger_camera_alert s current_time
               else (s, []))
            else (s\<lparr>drowsy_frames := 0\<rparr>, []));
         s = (if fr_score r \<ge> 45 then s\<lparr>drowsy_detections := drowsy_detections s + 1\<rparr> else s)
     in (s, alerts))"

text \<open>
  The loop over the reads of the camera, \<open>None\<close> being a failed read (\<^verbatim>\<open>ret\<close> false). The
  result holds, per processed frame, the actions that frame scheduled.
\<close>

fun camera_loop :: "detector \<Rightarrow> (detection \<times> real) option list \<Rightarrow> detector \<times> ui_action list list" where
  "camera_loop s [] = (s, [])"
| "camera_loop s (rd # rest) =
    (if camera_active s \<and> camera s \<noteq> None then
       (case rd of
          None \<Rightarrow> (s, [])
        | Some (d, current_time) \<Rightarrow>
            (let (s, alerts) = camera_frame s d current_time;
                 (s, out) = camera_loop s rest
             in (s, alerts # out)))
     else (s, []))"

definition alerts_fired :: "ui_action list \<Rightarrow> nat" where
  "alerts_fired acts = count_list acts PlayAlarm"

subsection \<open>Video playback and its summary\<close>

definition video_frame :: "detector \<Rightarrow> detection \<Rightarrow> detector" where
  "video_frame s d =
    (let s = s\<lparr>current_frame_num := current_frame_num s + 1\<rparr>;
         r = analyze_frame d
     in if fr_score r \<ge> 45 then
          (let s = s\<lparr>drowsy_detections := drowsy_detections s + 1\<rparr> in
           if fr_score r \<ge> 65 then s\<lparr>drowsy_frames := drowsy_frames s + 1\<rparr> else s)
        else s)"

text \<open>
  \<^verbatim>\<open>_play_video_thread\<close> over the reads of the video; the flag returned says whether the
  end of the video was reached, in which case \<^verbatim>\<open>on_video_end\<close> is scheduled.
\<close>

fun play_video_thread :: "detector \<Rightarrow> detection option list \<Rightarrow> detector \<times> bool" where
  "play_video_thread s [] = (s, False)"
| "play_video_thread s (rd # rest) =
    (if is_playing s \<and> video_capture s \<noteq> None then
       (case rd of
          None \<Rightarrow> (s, True)
        | Some d \<Rightarrow> play_video_thread (video_frame s d) rest)
     else (s, False))"

record summary =
  sum_total_frames :: int
  sum_drowsy_frames :: int
  sum_percentage :: real
  sum_very_drowsy :: int

text \<open>
  \<^verbatim>\<open>on_video_end\<close>: the summary box is shown when \<^verbatim>\<open>total_frames > 0\<close>; the percentage
  divides by \<^verbatim>\<open>current_frame_num\<close>, and Python raises on a zero divisor. The video is then
  rewound, which raises when \<^verbatim>\<open>video_capture\<close> is \<^verbatim>\<open>None\<close>, and the frame number is zeroed.
\<close>

definition on_video_end :: "detector \<Rightarrow> error + detector \<times> summary option" where
  "on_video_end s =
    (let s = s\<lparr>is_playing := False\<rparr> in
     bind_err
       (if total_frames s > 0 then
          (if current_frame_num s = 0 then Inl ZeroDivisionError
           else
             (let percentage =
                    (real_of_int (drowsy_detections s) / real_of_int (current_frame_num s)) * 100
              in Inr (Some \<lparr>sum_total_frames = current_frame_num s,
                            sum_drowsy_frames = drowsy_detections s,
                            sum_percentage = percentage,
                            sum_very_drowsy = drowsy_frames s\<rparr>)))
        else Inr None)
       (\<lambda>shown.
          if video_capture s = None then Inl AttributeError
          else Inr (s\<lparr>current_frame_num := 0\<rparr>, shown)))"

text \<open>Playing a loaded video over its remaining reads, with the end-of-video handler.\<close>

definition video_session :: "detector \<Rightarrow> detection option list \<Rightarrow> error + detector \<times> summary option" where
  "video_session s reads =
    (let (s, ended) = play_video_thread (play_video s) reads in
     if ended then on_video_end s else Inr (s, None))"

text \<open>
  The percentage of \<^verbatim>\<open>update_results\<close>: \<open>None\<close> when the label is left as it was.
\<close>

definition update_results_percentage :: "detector \<Rightarrow> real option" where
  "update_results_percentage s =
    (let analyzed = (if file_type s = Some ''video'' then current_frame_num s else total_frames s)
     in if analyzed > 0 then Some ((real_of_int (drowsy_detections s) / real_of_int analyzed) * 100)
        else None)"

subsection \<open>Sample inputs\<close>


definition closed_face :: "point list" where
  "closed_face = replicate 478 \<lparr>pt_x = 0, pt_y = 0, pt_z = 0\<rparr>"

definition drowsy_detection :: detection where
  "drowsy_detection = Inr [closed_face]"

definition opened_capture :: capture where
  "opened_capture = \<lparr>isOpened = True, frame_count = 1, cap_fps = 30\<rparr>"

text \<open>
  A loaded four-frame video set playing, and a camera session in which thirty drowsy
  frames have fired the alert at clock reading 1000.
\<close>

definition playing_video :: detector where
  "playing_video = play_video (load_video init ''drive.mp4'' (opened_capture\<lparr>frame_count := 4\<rparr>))"

definition alerted_session :: detector where
  "alerted_session =
    fst (camera_loop (start_camera init opened_capture)
          (map Some (replicate 29 (drowsy_detection, 1000) @ [(drowsy_detection, 1000)])))"

section \<open>Properties of the double-precision arithmetic\<close>

lemmas double_eval =
  to_double_def float_add_def float_div_def binade.simps pow2_def round_half_even_def Let_def

lemma pow2_pos: "0 < pow2 k"
  by (simp add: pow2_def)

lemma pow2_Suc: "pow2 (k + 1) = 2 * pow2 k"
proof (cases "0 \<le> k")
  case True
  then show ?thesis by (simp add: pow2_def nat_add_distrib)
next
  case False
  then have "nat (- k) = Suc (nat (- (k + 1)))" by simp
  with False show ?thesis by (auto simp: pow2_def)
qed

lemma pow2_pred: "pow2 (k - 1) = pow2 k / 2"
  using pow2_Suc [of "k - 1"] by simp

lemma binade_bounds:
  "0 < x \<Longrightarrow> pow2 (binade x) \<le> x \<and> x < 2 * pow2 (binade x)"
proof (induction x rule: binade.induct)
  case (1 x)
  show ?case
  proof (cases "2 \<le> x")
    case True
    then have b: "binade x = binade (x / 2) + 1"
      using "1.prems" by (subst binade.simps) simp
    have "pow2 (binade (x / 2)) \<le> x / 2 \<and> x / 2 < 2 * pow2 (binade (x / 2))"
      using "1.IH"(1) "1.prems" True by simp
    then show ?thesis unfolding b pow2_Suc by simp
  next
    case False
    show ?thesis
    proof (cases "x < 1")
      case True
      then have b: "binade x = binade (2 * x) - 1"
        using "1.prems" False by (subst binade.simps) simp
      have "pow2 (binade (2 * x)) \<le> 2 * x \<and> 2 * x < 2 * pow2 (binade (2 * x))"
        using "1.IH"(2) "1.prems" False True by simp
      then show ?thesis unfolding b pow2_pred by simp
    next
      case n: False
      then have "binade x = 0"
        using "1.prems" False by (subst binade.simps) simp
      then show ?thesis using False n by (simp add: pow2_def)
    qed
  qed
qed

lemma round_half_even_near:
  "\<bar>of_int (round_half_even y) - y\<bar> \<le> 1 / 2"
  unfolding round_half_even_def Let_def by (auto simp: abs_if) linarith+

lemma round_half_even_of_int: "round_half_even (of_int n) = n"
  by (simp add: round_half_even_def)

text \<open>
  Rounding moves a number by at most half the spacing of the doubles around it.
\<close>

lemma to_double_near:
  assumes "x \<noteq> 0"
  shows "\<bar>to_double x - x\<bar> \<le> pow2 (max (binade \<bar>x\<bar>) (- 1022) - 52) / 2"
proof -
  let ?q = "pow2 (max (binade \<bar>x\<bar>) (- 1022) - 52)"
  have q: "0 < ?q" by (rule pow2_pos)
  have "to_double x - x = ?q * (of_int (round_half_even (x / ?q)) - x / ?q)"
    using assms q by (simp add: to_double_def Let_def field_simps)
  then have "\<bar>to_double x - x\<bar> = ?q * \<bar>of_int (round_half_even (x / ?q)) - x / ?q\<bar>"
    using q by (simp add: abs_mult)
  also have "\<dots> \<le> ?q * (1 / 2)"
    using round_half_even_near [of "x / ?q"] q by (intro mult_left_mono) simp_all
  finally show ?thesis by simp
qed

text \<open>The doubles that the decimal literals of the scorer denote.\<close>

lemma double_literals:
  "to_double 0.20 = 3602879701896397 / 2 ^ 54"
  "to_double 0.293 = 5278218763278221 / 2 ^ 54"
  "to_double 0.343 = 6178938688752321 / 2 ^ 54"
  "to_double 0.393 = 1769914653556605 / 2 ^ 52"
  "to_double 0.443 = 7980378539700519 / 2 ^ 54"
  "to_double 0.267 = 2404922201015845 / 2 ^ 53"
  "to_double 0.167 = 6016809102166983 / 2 ^ 55"
  "to_double 0.117 = 8430738502437569 / 2 ^ 56"
  by (simp_all add: double_eval)

text \<open>
  Where the rounding of the sum decides the band: the float average of 0.036 and 0.364
  is below the double 0.20, that of 0.3 and 0.386 is below the double 0.343, and that of
  0.25 and 0.15 is the double 0.20 itself, although their exact means are not.
\<close>

lemma float_average_examples:
  "float_div (float_add (to_double 0.036) (to_double 0.364)) 2 = 7205759403792793 / 2 ^ 55"
  "float_div (float_add (to_double 0.3) (to_double 0.386)) 2 = 6178938688752320 / 2 ^ 54"
  "float_div (float_add 0.25 (to_double 0.15)) 2 = to_double 0.20"
  "float_div (float_add (to_double 0.343) (to_double 0.343)) 2 = to_double 0.343"
  by (simp_all add: double_eval)

section \<open>Properties of the scorer\<close>

lemma assess_score:
  "fst (assess_drowsiness l r m) =
     min (eye_points_spec (float_div (float_add l r) 2) + mouth_points_spec m) 100"
  by (simp add: assess_drowsiness_def eye_points_spec_def mouth_points_spec_def Let_def)

lemma assess_status:
  "fst (snd (assess_drowsiness l r m)) = status_spec (fst (assess_drowsiness l r m))"
  by (simp only: assess_drowsiness_def status_spec_def Let_def case_prod_beta fst_conv snd_conv)

lemma assess_indicators:
  "snd (snd (assess_drowsiness l r m)) =
    (let a = float_div (float_add l r) 2 in
      (if a < to_double 0.20 then [''Eyes fully closed (asleep)'']
       else if a < to_double 0.293 then [''Eyes nearly closed (very drowsy)'']
       else if a < to_double 0.343 then [''Eyes partially closed (drowsy)'']
       else if a < to_double 0.393 then [''Eyes slightly closing'']
       else if a < to_double 0.443 then [''Eyes narrowing slightly'']
       else []) @
      (if m > to_double 0.267 then [''Wide yawning detected'']
       else if m > to_double 0.167 then [''Yawning detected'']
       else if m > to_double 0.117 then [''Mouth opening (possible yawn)'']
       else []))"
  by (simp add: assess_drowsiness_def Let_def)

lemma assess_score_bounds:
  "0 \<le> fst (assess_drowsiness l r m) \<and> fst (assess_drowsiness l r m) \<le> 100"
  by (simp add: assess_score eye_points_spec_def mouth_points_spec_def)

text \<open>
  The scorer at the inputs where the rounded average and the exact mean fall on different
  sides of a threshold.
\<close>

lemma assess_rounding_examples:
  "assess_drowsiness (to_double 0.036) (to_double 0.364) 0 =
     (70, ''Very Drowsy / Asleep'', [''Eyes fully closed (asleep)''])"
  "assess_drowsiness (to_double 0.3) (to_double 0.386) 0 =
     (40, ''Slightly Drowsy'', [''Eyes partially closed (drowsy)''])"
  "assess_drowsiness 0.25 (to_double 0.15) 0 =
     (60, ''Drowsy'', [''Eyes nearly closed (very drowsy)''])"
  unfolding assess_drowsiness_def double_literals by (simp_all add: double_eval)

text \<open>
  C1. For all ear and mouth ratios (in particular all non-negative ones) the score is
  \<open>min (eyePoints + mouthPoints) 100\<close>, with the eye points the band of the average
  \<^verbatim>\<open>(left_ear + right_ear) / 2.0\<close> as the floats give it and the mouth points the band of
  the mouth ratio, and the status is the first matching band of that score: at least 65,
  45, 25, 10, otherwise Alert.
\<close>

theorem assess_drowsiness_bands:
  "fst (assess_drowsiness l r m) =
     min (eye_points_spec (float_div (float_add l r) 2) + mouth_points_spec m) 100 \<and>
   fst (snd (assess_drowsiness l r m)) =
     status_spec (min (eye_points_spec (float_div (float_add l r) 2) + mouth_points_spec m) 100)"
  using assess_score [of l r m] assess_status [of l r m] by simp

text \<open>
  C3, as stated: an average ear of exactly 0.343 with no mouth contribution would score the
  40 points of the partially-closed band. The code compares with \<open><\<close>, so the double 0.343
  is outside that band: with both ears at 0.343 the average is 0.343 and the scorer gives
  25 with the slightly-closing indicator.
\<close>

theorem boundary_0343_counterexample:
  "float_div (float_add (to_double 0.343) (to_double 0.343)) 2 = to_double 0.343 \<and>
   (0::real) \<le> to_double 0.117 \<and>
   fst (assess_drowsiness (to_double 0.343) (to_double 0.343) 0) \<noteq> 40 \<and>
   ''Eyes partially closed (drowsy)''
     \<notin> set (snd (snd (assess_drowsiness (to_double 0.343) (to_double 0.343) 0)))"
  unfolding assess_drowsiness_def double_literals by (simp add: double_eval)

text \<open>
  C3, amended: whenever the average the floats give is exactly the double 0.343 and the
  mouth ratio is at most the double 0.117, the scorer returns 25 points, status Slightly
  Drowsy, and the single indicator of the slightly-closing band.
\<close>

theorem boundary_0343_slightly_closing:
  assumes "float_div (float_add l r) 2 = to_double 0.343" and "m \<le> to_double 0.117"
  shows "assess_drowsiness l r m = (25, ''Slightly Drowsy'', [''Eyes slightly closing''])"
proof -
  have eye: "\<not> to_double 0.343 < to_double 0.20" "\<not> to_double 0.343 < to_double 0.293"
    "to_double 0.343 < to_double 0.393"
    unfolding double_literals by simp_all
  have mouth: "\<not> m > to_double 0.267" "\<not> m > to_double 0.167" "\<not> m > to_double 0.117"
    using assms(2) unfolding double_literals by simp_all
  show ?thesis
    using assms(1) eye mouth by (simp add: assess_drowsiness_def Let_def)
qed

theorem boundary_0343_slightly_closing_witness:
  "float_div (float_add (to_double 0.343) (to_double 0.343)) 2 = to_double 0.343 \<and>
   (0.1::real) \<le> to_double 0.117 \<and>
   assess_drowsiness (to_double 0.343) (to_double 0.343) 0.1 =
     (25, ''Slightly Drowsy'', [''Eyes slightly closing''])"
proof -
  have a: "float_div (float_add (to_double 0.343) (to_double 0.343)) 2 = to_double 0.343"
    by (simp add: double_eval)
  have b: "(0.1::real) \<le> to_double 0.117"
    unfolding double_literals by simp
  from boundary_0343_slightly_closing [OF a b] a b show ?thesis by blast
qed

text \<open>
  C8. The scorer is a function of its three arguments alone, so equal arguments give equal
  score, status and indicators; and its score lies between 0 and 100 for all inputs.
\<close>

theorem assess_deterministic_bounded:
  "0 \<le> fst (assess_drowsiness l r m) \<and> fst (assess_drowsiness l r m) \<le> 100 \<and>
   (\<forall>l' r' m'. l' = l \<and> r' = r \<and> m' = m \<longrightarrow>
      assess_drowsiness l' r' m' = assess_drowsiness l r m)"
proof -
  have "\<forall>l' r' m'. l' = l \<and> r' = r \<and> m' = m \<longrightarrow>
      assess_drowsiness l' r' m' = assess_drowsiness l r m"
    by blast
  with assess_score_bounds [of l r m] show ?thesis by blast
qed

theorem assess_deterministic_bounded_witness:
  "0 \<le> fst (assess_drowsiness 0.15 0.15 0.30) \<and>
   fst (assess_drowsiness 0.15 0.15 0.30) \<le> 100 \<and>
   fst (assess_drowsiness 0.15 0.15 0.30) = 100"
proof -
  note bounded = assess_deterministic_bounded [of "0.15" "0.15" "0.30"]
  have "fst (assess_drowsiness 0.15 0.15 0.30) = 100"
    unfolding assess_drowsiness_def double_literals by (simp add: double_eval)
  with bounded show ?thesis by blast
qed

text \<open>
  C10. The indicator list holds at most one text of the eye chain and at most one of the
  mouth chain, so at most two entries, and it is empty exactly when the score is 0.
\<close>

theorem indicators_shape:
  "length (filter (\<lambda>i. i \<in> set eye_indicators) (snd (snd (assess_drowsiness l r m)))) \<le> 1 \<and>
   length (filter (\<lambda>i. i \<in> set mouth_indicators) (snd (snd (assess_drowsiness l r m)))) \<le> 1 \<and>
   length (snd (snd (assess_drowsiness l r m))) \<le> 2 \<and>
   (snd (snd (assess_drowsiness l r m)) = [] \<longleftrightarrow> fst (assess_drowsiness l r m) = 0)"
proof -
  let ?inds = "snd (snd (assess_drowsiness l r m))"
  have len: "length ?inds \<le> 2"
    by (simp add: assess_indicators Let_def)
  have eye: "length (filter (\<lambda>i. i \<in> set eye_indicators) ?inds) \<le> 1"
    by (simp add: assess_indicators Let_def eye_indicators_def)
  have mouth: "length (filter (\<lambda>i. i \<in> set mouth_indicators) ?inds) \<le> 1"
    by (simp add: assess_indicators Let_def mouth_indicators_def)
  have empty: "?inds = [] \<longleftrightarrow> fst (assess_drowsiness l r m) = 0"
    by (simp add: assess_indicators assess_score eye_points_spec_def mouth_points_spec_def Let_def)
  from eye mouth len empty show ?thesis by blast
qed

section \<open>Properties of the feature extraction\<close>

lemma landmark_at_list:
  "k < length idx \<Longrightarrow> idx ! k < length lm \<Longrightarrow> landmark_at idx lm k = Inr (lm ! (idx ! k))"
  by (simp add: landmark_at_def getitem_def bind_err_def)






section \<open>Properties of the camera loop\<close>

lemma closed_face_eye:
  "calculate_eye_aspect_ratio left_eye_landmarks closed_face = Inr 0"
  "calculate_eye_aspect_ratio right_eye_landmarks closed_face = Inr 0"
  "calculate_mouth_aspect_ratio mouth_landmarks closed_face = Inr 0"
  by (simp_all add: calculate_eye_aspect_ratio_def calculate_mouth_aspect_ratio_def
      left_eye_landmarks_def right_eye_landmarks_def mouth_landmarks_def closed_face_def
      landmark_at_list bind_err_def calculate_distance_def)

lemma analyze_drowsy_detection:
  "analyze_frame drowsy_detection =
    \<lparr>fr_score = 70, fr_status = ''Very Drowsy / Asleep'',
     fr_indicators = [''Eyes fully closed (asleep)''],
     fr_left_ear = 0, fr_right_ear = 0, fr_mar = 0\<rparr>"
proof -
  have "assess_drowsiness 0 0 0 =
      (70, ''Very Drowsy / Asleep'', [''Eyes fully closed (asleep)''])"
    unfolding assess_drowsiness_def double_literals by (simp add: double_eval)
  then show ?thesis
    by (simp add: analyze_frame_def drowsy_detection_def closed_face_eye bind_err_def)
qed

lemma analyze_no_face: "analyze_frame (Inr []) = no_face_result"
  by (simp add: analyze_frame_def)

lemma analyze_exception: "analyze_frame (Inl e) = error_result"
  by (simp add: analyze_frame_def)

lemma assess_status_not_failure:
  "fst (snd (assess_drowsiness l r m)) \<noteq> ''No Face'' \<and>
   fst (snd (assess_drowsiness l r m)) \<noteq> ''Error''"
  by (simp add: assess_status status_spec_def)

lemma analyze_failure_score:
  assumes "fr_status (analyze_frame d) = ''No Face'' \<or> fr_status (analyze_frame d) = ''Error''"
  shows "fr_score (analyze_frame d) = 0"
proof (cases d)
  case (Inl e)
  then show ?thesis by (simp add: analyze_frame_def error_result_def)
next
  case (Inr faces)
  show ?thesis
  proof (cases "faces = []")
    case True
    with Inr show ?thesis by (simp add: analyze_frame_def no_face_result_def)
  next
    case False
    let ?c = "bind_err (calculate_eye_aspect_ratio left_eye_landmarks (faces ! 0)) (\<lambda>left_ear.
                  bind_err (calculate_eye_aspect_ratio right_eye_landmarks (faces ! 0)) (\<lambda>right_ear.
                  bind_err (calculate_mouth_aspect_ratio mouth_landmarks (faces ! 0)) (\<lambda>mar.
                    Inr (left_ear, right_ear, mar))))"
    show ?thesis
    proof (cases ?c)
      case (Inl e)
      with Inr False show ?thesis by (simp add: analyze_frame_def error_result_def)
    next
      case (Inr v)
      obtain l r m where v: "v = (l, r, m)" by (cases v) auto
      obtain sc st ind where a: "assess_drowsiness l r m = (sc, st, ind)"
        by (cases "assess_drowsiness l r m") auto
      from assess_status_not_failure [of l r m] a
      have "st \<noteq> ''No Face'' \<and> st \<noteq> ''Error''" by simp
      moreover from \<open>d = Inr faces\<close> False Inr v a
      have "fr_status (analyze_frame d) = st" by (simp add: analyze_frame_def)
      ultimately show ?thesis using assms by simp
    qed
  qed
qed

lemma camera_frame_counters:
  "drowsy_detections (fst (camera_frame s d t)) =
     drowsy_detections s + (if fr_score (analyze_frame d) \<ge> 45 then 1 else 0) \<and>
   drowsy_frames (fst (camera_frame s d t)) =
     (if fr_score (analyze_frame d) \<ge> 65 then drowsy_frames s + 1 else 0) \<and>
   current_frame_num (fst (camera_frame s d t)) = current_frame_num s + 1"
  by (simp add: camera_frame_def trigger_camera_alert_def Let_def split: prod.split)

text \<open>
  C5. In the camera loop every processed frame adds one to \<^verbatim>\<open>drowsy_detections\<close> exactly
  when its score is at least 45; \<^verbatim>\<open>drowsy_frames\<close> grows by one exactly when the score is at
  least 65 and is set to 0 otherwise. Frames without a face and frames whose analysis
  failed score 0, so they reset \<^verbatim>\<open>drowsy_frames\<close>.
\<close>

theorem camera_counters:
  "drowsy_detections (fst (camera_frame s d t)) =
     drowsy_detections s + (if fr_score (analyze_frame d) \<ge> 45 then 1 else 0) \<and>
   drowsy_frames (fst (camera_frame s d t)) =
     (if fr_score (analyze_frame d) \<ge> 65 then drowsy_frames s + 1 else 0) \<and>
   (fr_status (analyze_frame d) = ''No Face'' \<or> fr_status (analyze_frame d) = ''Error'' \<longrightarrow>
      fr_score (analyze_frame d) = 0 \<and> drowsy_frames (fst (camera_frame s d t)) = 0) \<and>
   fr_status (analyze_frame (Inr [])) = ''No Face'' \<and>
   fr_status (analyze_frame (Inl e)) = ''Error''"
proof -
  have "fr_status (analyze_frame d) = ''No Face'' \<or> fr_status (analyze_frame d) = ''Error'' \<longrightarrow>
      fr_score (analyze_frame d) = 0 \<and> drowsy_frames (fst (camera_frame s d t)) = 0"
    using analyze_failure_score [of d] camera_frame_counters [of s d t] by simp
  moreover have "fr_status (analyze_frame (Inr [])) = ''No Face''"
    by (simp add: analyze_no_face no_face_result_def)
  moreover have "fr_status (analyze_frame (Inl e)) = ''Error''"
    by (simp add: analyze_exception error_result_def)
  ultimately show ?thesis using camera_frame_counters [of s d t] by blast
qed

theorem camera_counters_witness:
  "fr_status (analyze_frame (Inr [])) = ''No Face'' \<and>
   fr_score (analyze_frame (Inr [])) = 0 \<and>
   drowsy_frames (fst (camera_frame (init\<lparr>drowsy_frames := 12\<rparr>) (Inr []) 1000)) = 0 \<and>
   drowsy_detections (fst (camera_frame (init\<lparr>drowsy_frames := 12\<rparr>) (Inr []) 1000)) = 0"
  using camera_counters [of "init\<lparr>drowsy_frames := 12\<rparr>" "Inr []" 1000 IndexError]
  by (simp add: init_def)

lemma camera_frame_static:
  "alert_threshold (fst (camera_frame s d t)) = alert_threshold s \<and>
   alert_cooldown (fst (camera_frame s d t)) = alert_cooldown s \<and>
   camera_active (fst (camera_frame s d t)) = camera_active s \<and>
   camera (fst (camera_frame s d t)) = camera s"
  by (simp add: camera_frame_def trigger_camera_alert_def Let_def split: prod.split)

lemma camera_frame_quiet:
  assumes "fr_score (analyze_frame d) \<ge> 65"
    and "drowsy_frames s + 1 < alert_threshold s \<or> t - last_alert_time s \<le> alert_cooldown s"
  shows "snd (camera_frame s d t) = [] \<and>
         last_alert_time (fst (camera_frame s d t)) = last_alert_time s \<and>
         drowsy_frames (fst (camera_frame s d t)) = drowsy_frames s + 1"
  using assms by (auto simp: camera_frame_def trigger_camera_alert_def Let_def)

lemma camera_frame_fire:
  assumes "fr_score (analyze_frame d) \<ge> 65"
    and "alert_threshold s \<le> drowsy_frames s + 1"
    and "t - last_alert_time s > alert_cooldown s"
  shows "snd (camera_frame s d t) =
           [ShowAlertLabel, PlayAlarm, ShowNotification, ClearAlertLabelAfter 3000] \<and>
         last_alert_time (fst (camera_frame s d t)) = t \<and>
         drowsy_frames (fst (camera_frame s d t)) = drowsy_frames s + 1"
  using assms by (auto simp: camera_frame_def trigger_camera_alert_def Let_def)

lemma camera_loop_inactive:
  "\<not> (camera_active s \<and> camera s \<noteq> None) \<Longrightarrow> camera_loop s rs = (s, [])"
  by (cases rs) auto

lemma camera_loop_append:
  "camera_loop s (map Some (xs @ ys)) =
    (let (s1, o1) = camera_loop s (map Some xs);
         (s2, o2) = camera_loop s1 (map Some ys)
     in (s2, o1 @ o2))"
proof (induction xs arbitrary: s)
  case Nil
  show ?case by (simp split: prod.split)
next
  case (Cons x xs)
  obtain d t where x: "x = (d, t)" by (cases x) auto
  show ?case
  proof (cases "camera_active s \<and> camera s \<noteq> None")
    case False
    then have "camera_loop s rs = (s, [])" for rs
      by (rule camera_loop_inactive)
    then show ?thesis by (simp only: Let_def prod.case append_Nil)
  next
    case True
    obtain s1 a where cf: "camera_frame s d t = (s1, a)"
      by (cases "camera_frame s d t") auto
    obtain s2 o1 where l1: "camera_loop s1 (map Some xs) = (s2, o1)"
      by (cases "camera_loop s1 (map Some xs)") auto
    obtain s3 o2 where l2: "camera_loop s2 (map Some ys) = (s3, o2)"
      by (cases "camera_loop s2 (map Some ys)") auto
    have "camera_loop s1 (map Some (xs @ ys)) = (s3, o1 @ o2)"
      using Cons.IH [of s1] l1 l2 by (simp add: Let_def)
    then show ?thesis
      using True x cf l1 l2 by (simp add: Let_def)
  qed
qed

lemma camera_loop_single:
  "camera_active s \<Longrightarrow> camera s \<noteq> None \<Longrightarrow>
   camera_loop s [Some (d, t)] = (fst (camera_frame s d t), [snd (camera_frame s d t)])"
  by (simp add: Let_def split: prod.split)

lemma quiet_run:
  assumes "camera_active s" "camera s \<noteq> None"
    and "\<forall>(d, t) \<in> set fs. fr_score (analyze_frame d) \<ge> 65"
    and "drowsy_frames s + int (length fs) < alert_threshold s \<or>
         (\<forall>(d, t) \<in> set fs. t - last_alert_time s \<le> alert_cooldown s)"
  shows "map alerts_fired (snd (camera_loop s (map Some fs))) = replicate (length fs) 0 \<and>
         drowsy_frames (fst (camera_loop s (map Some fs))) = drowsy_frames s + int (length fs) \<and>
         last_alert_time (fst (camera_loop s (map Some fs))) = last_alert_time s \<and>
         alert_threshold (fst (camera_loop s (map Some fs))) = alert_threshold s \<and>
         alert_cooldown (fst (camera_loop s (map Some fs))) = alert_cooldown s \<and>
         camera_active (fst (camera_loop s (map Some fs))) \<and>
         camera (fst (camera_loop s (map Some fs))) \<noteq> None"
  using assms
proof (induction fs arbitrary: s)
  case Nil
  then show ?case by simp
next
  case (Cons f fs)
  obtain d t where f: "f = (d, t)" by (cases f) auto
  let ?s1 = "fst (camera_frame s d t)"
  have sc: "fr_score (analyze_frame d) \<ge> 65" using Cons.prems(3) f by simp
  have q: "drowsy_frames s + 1 < alert_threshold s \<or> t - last_alert_time s \<le> alert_cooldown s"
    using Cons.prems(4) f by auto
  note step = camera_frame_quiet [OF sc q] camera_frame_static [of s d t]
  have a1: "camera_active ?s1" "camera ?s1 \<noteq> None"
    using step Cons.prems(1,2) by simp_all
  have r1: "\<forall>(d, t) \<in> set fs. fr_score (analyze_frame d) \<ge> 65"
    using Cons.prems(3) by simp
  have q1: "drowsy_frames ?s1 + int (length fs) < alert_threshold ?s1 \<or>
         (\<forall>(d, t) \<in> set fs. t - last_alert_time ?s1 \<le> alert_cooldown ?s1)"
    using Cons.prems(4) step by auto
  note ih = Cons.IH [OF a1 r1 q1]
  have loop: "camera_loop s (map Some (f # fs)) =
      (fst (camera_loop ?s1 (map Some fs)), snd (camera_frame s d t) # snd (camera_loop ?s1 (map Some fs)))"
    using Cons.prems(1,2) f by (simp add: Let_def split: prod.split)
  show ?case
    unfolding loop using ih step by (simp add: alerts_fired_def)
qed


lemma camera_loop_append_fst:
  "fst (camera_loop s (map Some (xs @ ys))) =
     fst (camera_loop (fst (camera_loop s (map Some xs))) (map Some ys))"
  using camera_loop_append [of s xs ys] by (simp add: Let_def split: prod.split)

lemma camera_loop_append_snd:
  "snd (camera_loop s (map Some (xs @ ys))) =
     snd (camera_loop s (map Some xs)) @
     snd (camera_loop (fst (camera_loop s (map Some xs))) (map Some ys))"
  using camera_loop_append [of s xs ys] by (simp add: Let_def split: prod.split)

lemma stop_video_fields:
  "alert_threshold (stop_video s) = alert_threshold s \<and>
   alert_cooldown (stop_video s) = alert_cooldown s \<and>
   last_alert_time (stop_video s) = last_alert_time s \<and>
   drowsy_frames (stop_video s) = drowsy_frames s \<and>
   drowsy_detections (stop_video s) = drowsy_detections s \<and>
   current_frame_num (stop_video s) = current_frame_num s \<and>
   total_frames (stop_video s) = total_frames s"
  by (simp add: stop_video_def Let_def)

lemma start_camera_fresh:
  assumes "isOpened cap"
  shows "camera_active (start_camera s cap) \<and> camera (start_camera s cap) \<noteq> None \<and>
         total_frames (start_camera s cap) = 0 \<and> current_frame_num (start_camera s cap) = 0 \<and>
         drowsy_detections (start_camera s cap) = 0 \<and> drowsy_frames (start_camera s cap) = 0 \<and>
         last_alert_time (start_camera s cap) = 0 \<and>
         alert_threshold (start_camera s cap) = alert_threshold s \<and>
         alert_cooldown (start_camera s cap) = alert_cooldown s"
  using assms by (simp add: start_camera_def stop_video_def Let_def)

lemma start_camera_forgets_alert:
  "isOpened cap \<Longrightarrow> start_camera (s\<lparr>last_alert_time := t0\<rparr>) cap = start_camera s cap"
  by (simp add: start_camera_def stop_video_def Let_def)

lemma fire_after_quiet_run:
  assumes act: "camera_active s" "camera s \<noteq> None"
    and sc: "\<forall>(d, t) \<in> set fs. fr_score (analyze_frame d) \<ge> 65"
    and q: "drowsy_frames s + int (length fs) < alert_threshold s \<or>
         (\<forall>(d, t) \<in> set fs. t - last_alert_time s \<le> alert_cooldown s)"
    and sc': "fr_score (analyze_frame d') \<ge> 65"
    and thr: "alert_threshold s \<le> drowsy_frames s + int (length fs) + 1"
    and cd: "t' - last_alert_time s > alert_cooldown s"
  shows "map alerts_fired (snd (camera_loop s (map Some (fs @ [(d', t')])))) =
           replicate (length fs) 0 @ [1] \<and>
         drowsy_frames (fst (camera_loop s (map Some (fs @ [(d', t')])))) =
           drowsy_frames s + int (length fs) + 1 \<and>
         last_alert_time (fst (camera_loop s (map Some (fs @ [(d', t')])))) = t' \<and>
         alert_threshold (fst (camera_loop s (map Some (fs @ [(d', t')])))) = alert_threshold s \<and>
         alert_cooldown (fst (camera_loop s (map Some (fs @ [(d', t')])))) = alert_cooldown s \<and>
         camera_active (fst (camera_loop s (map Some (fs @ [(d', t')])))) \<and>
         camera (fst (camera_loop s (map Some (fs @ [(d', t')])))) \<noteq> None"
proof -
  let ?s1 = "fst (camera_loop s (map Some fs))"
  note run = quiet_run [OF act sc q]
  have thr1: "alert_threshold ?s1 \<le> drowsy_frames ?s1 + 1" using run thr by simp
  have cd1: "t' - last_alert_time ?s1 > alert_cooldown ?s1" using run cd by simp
  note fire = camera_frame_fire [OF sc' thr1 cd1] camera_frame_static [of ?s1 d' t']
  have single: "camera_loop ?s1 (map Some [(d', t')]) =
      (fst (camera_frame ?s1 d' t'), [snd (camera_frame ?s1 d' t')])"
    using run camera_loop_single [of ?s1 d' t'] by simp
  show ?thesis
    unfolding camera_loop_append_fst camera_loop_append_snd single
    using run fire by (simp add: alerts_fired_def)
qed

text \<open>
  C2. In a camera session started with the default threshold of 30 frames and cooldown of
  5 seconds, and with the clock reading more than 5: 29 consecutive frames scoring at
  least 65 fire no alert, the 30th fires exactly one, 30 more such frames read within 5
  seconds of that alert fire none, and the next such frame read after the 5 seconds
  fires exactly one more.
\<close>

theorem alert_debounce:
  assumes "alert_threshold s = 30" and "alert_cooldown s = 5" and "isOpened cap"
    and "length fs1 = 29" and "\<forall>(d, t) \<in> set fs1. fr_score (analyze_frame d) \<ge> 65"
    and "fr_score (analyze_frame d30) \<ge> 65" and "t30 > 5"
    and "length fs2 = 30"
    and "\<forall>(d, t) \<in> set fs2. fr_score (analyze_frame d) \<ge> 65 \<and> t - t30 \<le> 5"
    and "fr_score (analyze_frame d61) \<ge> 65" and "t61 - t30 > 5"
  shows "map alerts_fired (snd (camera_loop (start_camera s cap) (map Some fs1))) = replicate 29 0 \<and>
         map alerts_fired (snd (camera_loop (start_camera s cap)
            (map Some ((fs1 @ [(d30, t30)]) @ (fs2 @ [(d61, t61)]))))) =
           (replicate 29 0 @ [1]) @ (replicate 30 0 @ [1])"
proof -
  let ?s0 = "start_camera s cap"
  note fresh = start_camera_fresh [OF assms(3), where s = s]
  have act0: "camera_active ?s0" "camera ?s0 \<noteq> None" using fresh by simp_all
  have q0: "drowsy_frames ?s0 + int (length fs1) < alert_threshold ?s0 \<or>
         (\<forall>(d, t) \<in> set fs1. t - last_alert_time ?s0 \<le> alert_cooldown ?s0)"
    using fresh assms(1,4) by simp
  have thr0: "alert_threshold ?s0 \<le> drowsy_frames ?s0 + int (length fs1) + 1"
    using fresh assms(1,4) by simp
  have cd0: "t30 - last_alert_time ?s0 > alert_cooldown ?s0"
    using fresh assms(2,7) by simp
  note first = fire_after_quiet_run [OF act0 assms(5) q0 assms(6) thr0 cd0]
  note quiet = quiet_run [OF act0 assms(5) q0]
  let ?s1 = "fst (camera_loop ?s0 (map Some (fs1 @ [(d30, t30)])))"
  have act1: "camera_active ?s1" "camera ?s1 \<noteq> None" using first by simp_all
  have sc2: "\<forall>(d, t) \<in> set fs2. fr_score (analyze_frame d) \<ge> 65"
    using assms(9) by auto
  have q1: "drowsy_frames ?s1 + int (length fs2) < alert_threshold ?s1 \<or>
         (\<forall>(d, t) \<in> set fs2. t - last_alert_time ?s1 \<le> alert_cooldown ?s1)"
    using first fresh assms(2,9) by auto
  have thr1: "alert_threshold ?s1 \<le> drowsy_frames ?s1 + int (length fs2) + 1"
    using first fresh assms(1,4,8) by simp
  have cd1: "t61 - last_alert_time ?s1 > alert_cooldown ?s1"
    using first fresh assms(2,11) by simp
  note second = fire_after_quiet_run [OF act1 sc2 q1 assms(10) thr1 cd1]
  have "map alerts_fired (snd (camera_loop ?s0 (map Some fs1))) = replicate 29 0"
    using quiet assms(4) by simp
  moreover have "map alerts_fired (snd (camera_loop ?s0
            (map Some ((fs1 @ [(d30, t30)]) @ (fs2 @ [(d61, t61)]))))) =
           (replicate 29 0 @ [1]) @ (replicate 30 0 @ [1])"
    unfolding camera_loop_append_snd [of ?s0 "fs1 @ [(d30, t30)]" "fs2 @ [(d61, t61)]"]
    using first second assms(4,8) by simp
  ultimately show ?thesis by blast
qed

theorem alert_debounce_witness:
  "map alerts_fired (snd (camera_loop (start_camera init opened_capture)
      (map Some (replicate 29 (drowsy_detection, 1000))))) = replicate 29 0 \<and>
   map alerts_fired (snd (camera_loop (start_camera init opened_capture)
      (map Some ((replicate 29 (drowsy_detection, 1000) @ [(drowsy_detection, 1001)]) @
                 (replicate 30 (drowsy_detection, 1002) @ [(drowsy_detection, 1007)]))))) =
     (replicate 29 0 @ [1]) @ (replicate 30 0 @ [1])"
  using alert_debounce [of init opened_capture "replicate 29 (drowsy_detection, 1000)"
      drowsy_detection 1001 "replicate 30 (drowsy_detection, 1002)" drowsy_detection 1007]
  by (simp add: init_def opened_capture_def analyze_drowsy_detection)

section \<open>Properties of video playback\<close>

lemma video_frame_counters:
  "drowsy_detections (video_frame s d) =
     drowsy_detections s + (if fr_score (analyze_frame d) \<ge> 45 then 1 else 0) \<and>
   drowsy_frames (video_frame s d) =
     drowsy_frames s + (if fr_score (analyze_frame d) \<ge> 65 then 1 else 0) \<and>
   current_frame_num (video_frame s d) = current_frame_num s + 1 \<and>
   last_alert_time (video_frame s d) = last_alert_time s"
  by (simp add: video_frame_def Let_def)

lemma play_video_thread_monotone:
  "drowsy_frames s \<le> drowsy_frames (fst (play_video_thread s reads)) \<and>
   last_alert_time (fst (play_video_thread s reads)) = last_alert_time s"
proof (induction reads arbitrary: s)
  case Nil
  show ?case by simp
next
  case (Cons rd rest)
  show ?case
  proof (cases rd)
    case None
    then show ?thesis by simp
  next
    case (Some d)
    have "drowsy_frames s \<le> drowsy_frames (video_frame s d)"
      using video_frame_counters [of s d] by simp
    moreover have "last_alert_time (video_frame s d) = last_alert_time s"
      using video_frame_counters [of s d] by simp
    ultimately show ?thesis
      using Some Cons.IH [of "video_frame s d"] by auto
  qed
qed

lemma video_frame_flags:
  "is_playing (video_frame s d) = is_playing s \<and> video_capture (video_frame s d) = video_capture s"
  by (simp add: video_frame_def Let_def)

lemma play_video_thread_count:
  "is_playing s \<Longrightarrow> video_capture s \<noteq> None \<Longrightarrow>
   drowsy_frames (fst (play_video_thread s (map Some ds))) =
     drowsy_frames s + int (length (filter (\<lambda>d. fr_score (analyze_frame d) \<ge> 65) ds)) \<and>
   drowsy_detections (fst (play_video_thread s (map Some ds))) =
     drowsy_detections s + int (length (filter (\<lambda>d. fr_score (analyze_frame d) \<ge> 45) ds))"
proof (induction ds arbitrary: s)
  case Nil
  show ?case by simp
next
  case (Cons d ds)
  have f: "is_playing (video_frame s d)" "video_capture (video_frame s d) \<noteq> None"
    using Cons.prems video_frame_flags [of s d] by simp_all
  show ?case
    using Cons.prems Cons.IH [OF f] video_frame_counters [of s d] by simp
qed

lemma on_video_end_summary:
  "on_video_end s = Inr (s', Some sm) \<Longrightarrow>
     sum_very_drowsy sm = drowsy_frames s \<and> sum_drowsy_frames sm = drowsy_detections s"
  by (auto simp: on_video_end_def bind_err_def Let_def split: if_splits)

text \<open>
  C6. In video playback every processed frame adds one to \<^verbatim>\<open>drowsy_detections\<close> exactly
  when its score is at least 45 and one to \<^verbatim>\<open>drowsy_frames\<close> exactly when its score is at
  least 65. Playback never lowers \<^verbatim>\<open>drowsy_frames\<close>, which over the processed frames counts
  those scoring at least 65; it never touches \<^verbatim>\<open>last_alert_time\<close>, and the summary shown at
  the end of the video reports the counter as its very-drowsy figure.
\<close>

theorem playback_counters:
  "drowsy_detections (video_frame s d) =
     drowsy_detections s + (if fr_score (analyze_frame d) \<ge> 45 then 1 else 0) \<and>
   drowsy_frames (video_frame s d) =
     drowsy_frames s + (if fr_score (analyze_frame d) \<ge> 65 then 1 else 0) \<and>
   last_alert_time (video_frame s d) = last_alert_time s \<and>
   drowsy_frames s \<le> drowsy_frames (fst (play_video_thread s reads)) \<and>
   last_alert_time (fst (play_video_thread s reads)) = last_alert_time s \<and>
   (is_playing s \<and> video_capture s \<noteq> None \<longrightarrow>
      drowsy_frames (fst (play_video_thread s (map Some ds))) =
        drowsy_frames s + int (length (filter (\<lambda>d. fr_score (analyze_frame d) \<ge> 65) ds))) \<and>
   (\<forall>s' sm. on_video_end s = Inr (s', Some sm) \<longrightarrow> sum_very_drowsy sm = drowsy_frames s)"
  using video_frame_counters [of s d] play_video_thread_monotone [of s reads]
    play_video_thread_count [of s ds] on_video_end_summary [of s]
  by blast

theorem playback_counters_witness:
  "is_playing playing_video \<and> video_capture playing_video \<noteq> None \<and>
   drowsy_frames (fst (play_video_thread playing_video
      (map Some [drowsy_detection, Inr [], drowsy_detection]))) = 2 \<and>
   drowsy_detections (fst (play_video_thread playing_video
      (map Some [drowsy_detection, Inr [], drowsy_detection]))) = 2 \<and>
   (\<exists>s' sm. video_session playing_video [Some drowsy_detection, Some (Inr []), Some drowsy_detection, None]
       = Inr (s', Some sm) \<and> sum_very_drowsy sm = 2 \<and> sum_total_frames sm = 3)"
  using playback_counters [of playing_video drowsy_detection "[]" "[drowsy_detection, Inr [], drowsy_detection]"]
  by (simp add: playing_video_def play_video_def load_video_def init_def opened_capture_def Let_def
      analyze_drowsy_detection analyze_no_face no_face_result_def video_session_def video_frame_def
      on_video_end_def bind_err_def)

lemma camera_frame_display_fields:
  "total_frames (fst (camera_frame s d t)) = total_frames s \<and>
   file_type (fst (camera_frame s d t)) = file_type s"
  by (simp add: camera_frame_def trigger_camera_alert_def Let_def split: prod.split)

lemma camera_loop_display_fields:
  "total_frames (fst (camera_loop s reads)) = total_frames s \<and>
   file_type (fst (camera_loop s reads)) = file_type s"
proof (induction reads arbitrary: s)
  case Nil
  show ?case by simp
next
  case (Cons rd rest)
  show ?case
  proof (cases rd)
    case None
    then show ?thesis by simp
  next
    case (Some f)
    obtain d t where f: "f = (d, t)" by (cases f) auto
    obtain s1 a where cf: "camera_frame s d t = (s1, a)"
      by (cases "camera_frame s d t") auto
    obtain s2 out where cl: "camera_loop s1 rest = (s2, out)"
      by (cases "camera_loop s1 rest") auto
    have "total_frames s1 = total_frames s \<and> file_type s1 = file_type s"
      using camera_frame_display_fields [of s d t] cf by simp
    moreover have "total_frames s2 = total_frames s1 \<and> file_type s2 = file_type s1"
      using Cons.IH [of s1] cl by simp
    ultimately show ?thesis
      using Some f cf cl by simp
  qed
qed

text \<open>
  In a camera session \<^verbatim>\<open>update_results\<close> takes \<^verbatim>\<open>total_frames\<close>, which the camera loop never
  changes from 0, as the number of analysed frames: it computes no percentage there.
\<close>

lemma camera_percentage_not_computed:
  "isOpened cap \<Longrightarrow>
   update_results_percentage (fst (camera_loop (start_camera s cap) reads)) = None"
  using camera_loop_display_fields [of "start_camera s cap" reads]
  by (simp add: update_results_percentage_def start_camera_def stop_video_def Let_def)

lemma update_results_percentage_value:
  "update_results_percentage s =
    (let analyzed = (if file_type s = Some ''video'' then current_frame_num s else total_frames s)
     in if analyzed > 0
        then Some (real_of_int (drowsy_detections s) / real_of_int analyzed * 100) else None)"
  by (simp add: update_results_percentage_def)

text \<open>
  C7. The summary guards its percentage with \<^verbatim>\<open>total_frames > 0\<close> but divides by
  \<^verbatim>\<open>current_frame_num\<close>. A video of one frame, whose only frame was consumed by loading,
  reaches its end with no frame processed, and the division raises.
\<close>

theorem summary_zero_division:
  "video_session (load_video init ''clip.mp4'' opened_capture) [None] = Inl ZeroDivisionError"
  by (simp add: video_session_def play_video_def load_video_def init_def opened_capture_def Let_def
      on_video_end_def bind_err_def)

section \<open>Properties of the session resets\<close>

lemma alerted_session_fields:
  "last_alert_time alerted_session = 1000 \<and> drowsy_frames alerted_session = 30"
proof -
  let ?s0 = "start_camera init opened_capture"
  have op: "isOpened opened_capture" by (simp add: opened_capture_def)
  note fresh = start_camera_fresh [OF op, where s = init]
  have act0: "camera_active ?s0" "camera ?s0 \<noteq> None" using fresh by simp_all
  have sc: "\<forall>(d, t) \<in> set (replicate 29 (drowsy_detection, 1000::real)). fr_score (analyze_frame d) \<ge> 65"
    by (simp add: analyze_drowsy_detection)
  have q0: "drowsy_frames ?s0 + int (length (replicate 29 (drowsy_detection, 1000::real))) < alert_threshold ?s0 \<or>
         (\<forall>(d, t) \<in> set (replicate 29 (drowsy_detection, 1000::real)). t - last_alert_time ?s0 \<le> alert_cooldown ?s0)"
    using fresh by (simp add: init_def)
  have sc': "fr_score (analyze_frame drowsy_detection) \<ge> 65"
    by (simp add: analyze_drowsy_detection)
  have thr0: "alert_threshold ?s0 \<le> drowsy_frames ?s0 + int (length (replicate 29 (drowsy_detection, 1000::real))) + 1"
    using fresh by (simp add: init_def)
  have cd0: "1000 - last_alert_time ?s0 > alert_cooldown ?s0"
    using fresh by (simp add: init_def)
  from fire_after_quiet_run [OF act0 sc q0 sc' thr0 cd0] fresh
  show ?thesis by (simp add: alerted_session_def)
qed

text \<open>
  C9, as stated: loading a new file would zero the time of the last alert. After a camera
  session that fired its alert at clock reading 1000 is stopped, loading a video leaves
  that time at 1000.
\<close>

theorem reset_keeps_alert_time_counterexample:
  "last_alert_time (load_file (stop_camera alerted_session) ''clip.mp4'' ''.mp4'' False opened_capture) = 1000 \<and>
   last_alert_time (load_file (stop_camera alerted_session) ''clip.mp4'' ''.mp4'' False opened_capture) \<noteq> 0 \<and>
   file_type (load_file (stop_camera alerted_session) ''clip.mp4'' ''.mp4'' False opened_capture) = Some ''video''"
  using alerted_session_fields
  by (simp add: load_file_def load_video_def stop_camera_def stop_video_def Let_def
      image_exts_def video_exts_def opened_capture_def)

lemma video_ext_not_image: "ext \<in> set video_exts \<Longrightarrow> ext \<notin> set image_exts"
  by (auto simp: video_exts_def image_exts_def)

lemma load_file_video:
  assumes "ext \<in> set video_exts" "isOpened cap"
  shows "current_frame_num (load_file s path ext image_read cap) = 0 \<and>
         drowsy_detections (load_file s path ext image_read cap) = 0 \<and>
         drowsy_frames (load_file s path ext image_read cap) = 0 \<and>
         last_alert_time (load_file s path ext image_read cap) = last_alert_time s"
  using assms video_ext_not_image [of ext]
  by (simp add: load_file_def load_video_def stop_video_def Let_def)

lemma load_file_image:
  assumes "ext \<in> set image_exts" "image_read"
  shows "current_frame_num (load_file s path ext image_read cap) = 0 \<and>
         drowsy_detections (load_file s path ext image_read cap) = 0 \<and>
         drowsy_frames (load_file s path ext image_read cap) = 0 \<and>
         total_frames (load_file s path ext image_read cap) = 1 \<and>
         last_alert_time (load_file s path ext image_read cap) = last_alert_time s"
  using assms
  by (simp add: load_file_def load_image_def stop_video_def Let_def)

text \<open>
  C9, amended: starting a camera session zeroes \<^verbatim>\<open>total_frames\<close>, \<^verbatim>\<open>current_frame_num\<close>,
  \<^verbatim>\<open>drowsy_detections\<close>, \<^verbatim>\<open>drowsy_frames\<close> and \<^verbatim>\<open>last_alert_time\<close>, so the alerts of the
  new session do not depend on the time of an earlier alert. Loading a video or an image
  zeroes \<^verbatim>\<open>current_frame_num\<close>, \<^verbatim>\<open>drowsy_detections\<close> and \<^verbatim>\<open>drowsy_frames\<close> and leaves
  \<^verbatim>\<open>last_alert_time\<close> as it was; playback fires no alert.
\<close>

theorem session_reset:
  "(isOpened cap \<longrightarrow>
      total_frames (start_camera s cap) = 0 \<and> current_frame_num (start_camera s cap) = 0 \<and>
      drowsy_detections (start_camera s cap) = 0 \<and> drowsy_frames (start_camera s cap) = 0 \<and>
      last_alert_time (start_camera s cap) = 0 \<and>
      snd (camera_loop (start_camera (s\<lparr>last_alert_time := t0\<rparr>) cap) reads) =
        snd (camera_loop (start_camera s cap) reads)) \<and>
   (ext \<in> set video_exts \<and> isOpened cap \<longrightarrow>
      current_frame_num (load_file s path ext image_read cap) = 0 \<and>
      drowsy_detections (load_file s path ext image_read cap) = 0 \<and>
      drowsy_frames (load_file s path ext image_read cap) = 0 \<and>
      last_alert_time (load_file s path ext image_read cap) = last_alert_time s) \<and>
   (ext \<in> set image_exts \<and> image_read \<longrightarrow>
      current_frame_num (load_file s path ext image_read cap) = 0 \<and>
      drowsy_detections (load_file s path ext image_read cap) = 0 \<and>
      drowsy_frames (load_file s path ext image_read cap) = 0 \<and>
      last_alert_time (load_file s path ext image_read cap) = last_alert_time s)"
  using start_camera_fresh [where cap = cap and s = s]
    start_camera_forgets_alert [where cap = cap and s = s and ?t0.0 = t0]
    load_file_video [where ext = ext and cap = cap and s = s and path = path and image_read = image_read]
    load_file_image [where ext = ext and cap = cap and s = s and path = path and image_read = image_read]
  by simp

theorem session_reset_witness:
  "isOpened opened_capture \<and> ''.mp4'' \<in> set video_exts \<and>
   last_alert_time (start_camera (stop_camera alerted_session) opened_capture) = 0 \<and>
   drowsy_frames (start_camera (stop_camera alerted_session) opened_capture) = 0 \<and>
   drowsy_frames (load_file (stop_camera alerted_session) ''clip.mp4'' ''.mp4'' False opened_capture) = 0 \<and>
   last_alert_time (load_file (stop_camera alerted_session) ''clip.mp4'' ''.mp4'' False opened_capture) =
     last_alert_time (stop_camera alerted_session)"
  using session_reset [where cap = opened_capture and s = "stop_camera alerted_session"
      and ?t0.0 = 0 and reads = "[]" and ext = "''.mp4''" and path = "''clip.mp4''"
      and image_read = False]
  by (simp add: opened_capture_def video_exts_def)

end
